theory Spec2Isabelle
  imports Complex_Main
begin

section \<open>Form values and the zod validators the pages use\<close>

text \<open>
  The pages read their form through react-hook-form and validate it with a zod schema
  (\<open>zodResolver\<close>). A raw form is a JavaScript object: a text input or a select
  yields a string, a number input registered with \<open>valueAsNumber\<close> yields a number
  or \<open>NaN\<close>, and a key that is not there reads as \<open>undefined\<close>.
\<close>

datatype js_value = Undefined | Str string | Num rat | NaN

type_synonym raw_form = "string \<Rightarrow> js_value"

datatype issue_code = invalid_type | too_small | too_big | invalid_enum_value

text \<open>A zod issue: the path of the field, the code, and the message where the schema gives one.\<close>

datatype issue = Issue string issue_code "string option"

text \<open>\<open>z.string().min(1, msg)\<close>\<close>

fun z_string_min1 :: "string \<Rightarrow> string \<Rightarrow> js_value \<Rightarrow> issue list + string" where
  "z_string_min1 p msg (Str s) =
     (if 1 \<le> length s then Inr s else Inl [Issue p too_small (Some msg)])"
| "z_string_min1 p msg v = Inl [Issue p invalid_type None]"

text \<open>\<open>z.number().min(lo).max(hi)\<close>: \<open>NaN\<close> is not a number for zod.\<close>

fun z_number_min_max :: "string \<Rightarrow> rat \<Rightarrow> rat \<Rightarrow> js_value \<Rightarrow> issue list + rat" where
  "z_number_min_max p lo hi (Num x) =
     (if x < lo then Inl [Issue p too_small None]
      else if hi < x then Inl [Issue p too_big None]
      else Inr x)"
| "z_number_min_max p lo hi v = Inl [Issue p invalid_type None]"

text \<open>\<open>z.enum([...])\<close>\<close>

fun z_enum :: "string \<Rightarrow> string list \<Rightarrow> js_value \<Rightarrow> issue list + string" where
  "z_enum p opts (Str s) =
     (if s \<in> set opts then Inr s else Inl [Issue p invalid_enum_value None])"
| "z_enum p opts v = Inl [Issue p invalid_type None]"

text \<open>\<open>z.string().optional()\<close>\<close>

fun z_string_optional :: "string \<Rightarrow> js_value \<Rightarrow> issue list + string option" where
  "z_string_optional p Undefined = Inr None"
| "z_string_optional p (Str s) = Inr (Some s)"
| "z_string_optional p v = Inl [Issue p invalid_type None]"

text \<open>\<open>z.object\<close> validates every field and reports the issues of all of them.\<close>

fun issues_of :: "issue list + 'a \<Rightarrow> issue list" where
  "issues_of (Inl is) = is"
| "issues_of (Inr v) = []"

fun both :: "issue list + 'a \<Rightarrow> issue list + 'b \<Rightarrow> issue list + ('a \<times> 'b)" where
  "both (Inr a) (Inr b) = Inr (a, b)"
| "both x y = Inl (issues_of x @ issues_of y)"

section \<open>The pages' state\<close>

text \<open>
  What a submit can change: the \<open>loading\<close> and \<open>error\<close> state of the page, the errors
  react-hook-form shows under the fields, the requests sent through \<open>apiClient\<close> and
  the routes pushed on the router.
\<close>

record 'd page_state =
  loading :: bool
  error :: "string option"
  form_errors :: "issue list"
  api_calls :: "'d list"
  pushed :: "string list"

text \<open>
  The request either resolves or rejects; a rejection may carry
  \<open>err.response?.data?.detail\<close>.
\<close>

datatype api_outcome = Resolved | Rejected "string option"

text \<open>\<open>detail || fallback\<close>: an absent and an empty detail are both falsy.\<close>

fun detail_or :: "string option \<Rightarrow> string \<Rightarrow> string" where
  "detail_or None fallback = fallback"
| "detail_or (Some d) fallback = (if d = [] then fallback else d)"

text \<open>
  \<open>handleSubmit(onSubmit)\<close> of react-hook-form: the resolver runs first, and the
  handler is called with the parsed data only when the resolver reports no issue.
\<close>

definition handleSubmit ::
  "(raw_form \<Rightarrow> issue list + 'd) \<Rightarrow> ('d \<Rightarrow> 'd page_state \<Rightarrow> 'd page_state) \<Rightarrow>
   raw_form \<Rightarrow> 'd page_state \<Rightarrow> 'd page_state" where
  "handleSubmit resolver onValid raw st =
     (case resolver raw of
        Inl is \<Rightarrow> st\<lparr>form_errors := is\<rparr>
      | Inr d \<Rightarrow> onValid d (st\<lparr>form_errors := []\<rparr>))"

section \<open>Team registration (CreateTeamPage)\<close>

record TeamFormData =
  team_name :: string
  tournament_id :: string
  experience_level :: string

definition experience_levels :: "string list" where
  "experience_levels = [''novice'', ''intermediate'', ''advanced'']"

definition teamSchema :: "raw_form \<Rightarrow> issue list + TeamFormData" where
  "teamSchema raw =
     map_sum id
       (\<lambda>(n, t, e). \<lparr>team_name = n, tournament_id = t, experience_level = e\<rparr>)
       (both (z_string_min1 ''name'' ''Team name is required'' (raw ''name''))
       (both (z_string_min1 ''tournament_id'' ''Tournament is required'' (raw ''tournament_id''))
             (z_enum ''experience_level'' experience_levels (raw ''experience_level''))))"

definition CreateTeamPage_onSubmit ::
  "(TeamFormData \<Rightarrow> api_outcome) \<Rightarrow> TeamFormData \<Rightarrow>
   TeamFormData page_state \<Rightarrow> TeamFormData page_state" where
  "CreateTeamPage_onSubmit createTeam data st =
     (let st1 = st\<lparr>loading := True, error := None\<rparr>;
          st2 = st1\<lparr>api_calls := api_calls st1 @ [data]\<rparr>
      in case createTeam data of
           Resolved \<Rightarrow> st2\<lparr>pushed := pushed st2 @ [''/teams''], loading := False\<rparr>
         | Rejected d \<Rightarrow>
             st2\<lparr>error := Some (detail_or d ''Failed to create team''), loading := False\<rparr>)"

definition CreateTeamPage_submit ::
  "(TeamFormData \<Rightarrow> api_outcome) \<Rightarrow> raw_form \<Rightarrow>
   TeamFormData page_state \<Rightarrow> TeamFormData page_state" where
  "CreateTeamPage_submit createTeam = handleSubmit teamSchema (CreateTeamPage_onSubmit createTeam)"

text \<open>\<open>level.toLowerCase()\<close> on the ASCII letters.\<close>

definition lower_char :: "char \<Rightarrow> char" where
  "lower_char c =
     (case map_of (zip ''ABCDEFGHIJKLMNOPQRSTUVWXYZ'' ''abcdefghijklmnopqrstuvwxyz'') c of
        Some l \<Rightarrow> l
      | None \<Rightarrow> c)"

definition toLowerCase :: "string \<Rightarrow> string" where
  "toLowerCase s = map lower_char s"

definition getExperienceColor :: "string \<Rightarrow> string" where
  "getExperienceColor level =
     (let l = toLowerCase level in
      if l = ''novice'' then ''bg-green-100 text-green-800''
      else if l = ''intermediate'' then ''bg-yellow-100 text-yellow-800''
      else if l = ''advanced'' then ''bg-red-100 text-red-800''
      else ''bg-gray-100 text-gray-800'')"

section \<open>Tournament creation (CreateTournamentPage) and the TournamentForm component\<close>

record TournamentFormData =
  name :: string
  description :: string
  start_date :: string
  end_date :: string
  swiss_rounds_count :: rat
  max_teams :: rat
  status :: string

text \<open>The form data of the TournamentForm component has the optional \<open>location\<close> besides.\<close>

record TournamentForm_FormData = TournamentFormData +
  location :: "string option"

text \<open>The \<open>status\<close> enum of the creation page's schema.\<close>

definition page_statuses :: "string list" where
  "page_statuses = [''upcoming'', ''active'', ''completed'', ''cancelled'']"

text \<open>The \<open>status\<close> enum of the schema in \<open>components/ui/TournamentForm.tsx\<close>.\<close>

definition form_statuses :: "string list" where
  "form_statuses = [''setup'', ''upcoming'', ''active'', ''completed'', ''cancelled'']"

text \<open>The fields the two schemas share, with the \<open>status\<close> enum as a parameter.\<close>

definition tournament_fields ::
  "string list \<Rightarrow> raw_form \<Rightarrow>
   issue list + (string \<times> string \<times> string \<times> string \<times> rat \<times> rat \<times> string)" where
  "tournament_fields statuses raw =
     both (z_string_min1 ''name'' ''Tournament name is required'' (raw ''name''))
    (both (z_string_min1 ''description'' ''Description is required'' (raw ''description''))
    (both (z_string_min1 ''start_date'' ''Start date is required'' (raw ''start_date''))
    (both (z_string_min1 ''end_date'' ''End date is required'' (raw ''end_date''))
    (both (z_number_min_max ''swiss_rounds_count'' 1 10 (raw ''swiss_rounds_count''))
    (both (z_number_min_max ''max_teams'' 1 100 (raw ''max_teams''))
          (z_enum ''status'' statuses (raw ''status'')))))))"

text \<open>\<open>tournamentSchema\<close> of the creation page.\<close>

definition tournamentSchema :: "raw_form \<Rightarrow> issue list + TournamentFormData" where
  "tournamentSchema raw =
     map_sum id
       (\<lambda>(n, d, sd, ed, sw, mt, s).
          \<lparr>name = n, description = d, start_date = sd, end_date = ed,
           swiss_rounds_count = sw, max_teams = mt, status = s\<rparr>)
       (tournament_fields page_statuses raw)"

text \<open>\<open>tournamentSchema\<close> of the TournamentForm component.\<close>

definition TournamentForm_tournamentSchema :: "raw_form \<Rightarrow> issue list + TournamentForm_FormData" where
  "TournamentForm_tournamentSchema raw =
     map_sum id
       (\<lambda>((n, d, sd, ed, sw, mt, s), l).
          \<lparr>name = n, description = d, start_date = sd, end_date = ed,
           swiss_rounds_count = sw, max_teams = mt, status = s, location = l\<rparr>)
       (both (tournament_fields form_statuses raw)
             (z_string_optional ''location'' (raw ''location'')))"

text \<open>
  \<open>new Date(s)\<close> holds a time value in milliseconds, or \<open>NaN\<close> (\<open>None\<close>) for a
  string that is not a date. \<open>a <= b\<close> on two dates compares the time values as
  numbers, and is false as soon as one of them is \<open>NaN\<close>.
\<close>

fun date_le :: "int option \<Rightarrow> int option \<Rightarrow> bool" where
  "date_le (Some a) (Some b) = (a \<le> b)"
| "date_le a b = False"

text \<open>
  \<open>onSubmit\<close> of the creation page. \<open>parseDate\<close> is the time value that
  \<open>new Date\<close> gives a string, \<open>createTournament\<close> the outcome of the request.
\<close>

definition CreateTournamentPage_onSubmit ::
  "(string \<Rightarrow> int option) \<Rightarrow> (TournamentFormData \<Rightarrow> api_outcome) \<Rightarrow> TournamentFormData \<Rightarrow>
   TournamentFormData page_state \<Rightarrow> TournamentFormData page_state" where
  "CreateTournamentPage_onSubmit parseDate createTournament data st =
     (let st1 = st\<lparr>loading := True, error := None\<rparr> in
      if date_le (parseDate (end_date data)) (parseDate (start_date data))
      then st1\<lparr>error := Some ''End date must be after start date'', loading := False\<rparr>
      else
        let st2 = st1\<lparr>api_calls := api_calls st1 @ [data]\<rparr> in
        case createTournament data of
          Resolved \<Rightarrow> st2\<lparr>pushed := pushed st2 @ [''/tournaments''], loading := False\<rparr>
        | Rejected d \<Rightarrow>
            st2\<lparr>error := Some (detail_or d ''Failed to create tournament''),
                loading := False\<rparr>)"

definition CreateTournamentPage_submit ::
  "(string \<Rightarrow> int option) \<Rightarrow> (TournamentFormData \<Rightarrow> api_outcome) \<Rightarrow> raw_form \<Rightarrow>
   TournamentFormData page_state \<Rightarrow> TournamentFormData page_state" where
  "CreateTournamentPage_submit parseDate createTournament =
     handleSubmit tournamentSchema (CreateTournamentPage_onSubmit parseDate createTournament)"

text \<open>
  \<open>handleFormSubmit\<close> of the TournamentForm component passes the data to the
  \<open>onSubmit\<close> prop (the creating or updating parent) and only logs what the prop
  throws; \<open>api_calls\<close> records the data the prop was called with.
\<close>

definition TournamentForm_handleFormSubmit ::
  "TournamentForm_FormData \<Rightarrow> TournamentForm_FormData page_state \<Rightarrow> TournamentForm_FormData page_state" where
  "TournamentForm_handleFormSubmit data st = st\<lparr>api_calls := api_calls st @ [data]\<rparr>"

definition TournamentForm_submit ::
  "raw_form \<Rightarrow> TournamentForm_FormData page_state \<Rightarrow> TournamentForm_FormData page_state" where
  "TournamentForm_submit = handleSubmit TournamentForm_tournamentSchema TournamentForm_handleFormSubmit"

text \<open>
  Modelled from the spec: the phases its data model (section 3) gives a Tournament,
  \<open>setup | swiss | elimination | complete\<close>. The code has no such enumeration.
\<close>

definition spec_phases :: "string list" where
  "spec_phases = [''setup'', ''swiss'', ''elimination'', ''complete'']"

section \<open>Sample inputs\<close>

definition initial_state :: "'d page_state" where
  "initial_state =
     \<lparr>loading = False, error = None, form_errors = [], api_calls = [], pushed = []\<rparr>"

definition sample_team_form :: raw_form where
  "sample_team_form =
     (\<lambda>k. Undefined)(''name'' := Str ''Botz'', ''tournament_id'' := Str ''7'',
        ''experience_level'' := Str ''advanced'')"

definition sample_team :: TeamFormData where
  "sample_team = \<lparr>team_name = ''Botz'', tournament_id = ''7'', experience_level = ''advanced''\<rparr>"

text \<open>A complete form whose status the user selected, and the data the page parses from it.\<close>

definition sample_tournament_form :: raw_form where
  "sample_tournament_form =
     (\<lambda>k. Undefined)(''name'' := Str ''Test Tournament'',
        ''description'' := Str ''A test tournament'',
        ''start_date'' := Str ''2024-01-01'', ''end_date'' := Str ''2024-01-02'',
        ''swiss_rounds_count'' := Num 3, ''max_teams'' := Num 16,
        ''status'' := Str ''active'')"

definition sample_tournament :: TournamentFormData where
  "sample_tournament =
     \<lparr>name = ''Test Tournament'', description = ''A test tournament'',
      start_date = ''2024-01-01'', end_date = ''2024-01-02'',
      swiss_rounds_count = 3, max_teams = 16, status = ''active''\<rparr>"

text \<open>The same data with the end date before the start date.\<close>

definition sample_bad_range :: TournamentFormData where
  "sample_bad_range = sample_tournament\<lparr>start_date := ''2024-01-02'', end_date := ''2024-01-01''\<rparr>"

text \<open>The same form with the status set to \<open>cancelled\<close>, and what the two schemas parse from it.\<close>

definition sample_update_form :: raw_form where
  "sample_update_form = sample_tournament_form(''status'' := Str ''cancelled'')"

definition sample_cancelled :: TournamentFormData where
  "sample_cancelled = sample_tournament\<lparr>status := ''cancelled''\<rparr>"

definition sample_update :: TournamentForm_FormData where
  "sample_update =
     \<lparr>name = ''Test Tournament'', description = ''A test tournament'',
      start_date = ''2024-01-01'', end_date = ''2024-01-02'',
      swiss_rounds_count = 3, max_teams = 16, status = ''cancelled'', location = None\<rparr>"


text \<open>The time values of the two dates of the tests (midnight UTC, in milliseconds).\<close>

definition sample_parseDate :: "string \<Rightarrow> int option" where
  "sample_parseDate s =
     (if s = ''2024-01-01'' then Some 1704067200000
      else if s = ''2024-01-02'' then Some 1704153600000
      else None)"

section \<open>The progression engine's conflict-safe mutation and result application\<close>

text \<open>
  Modelled from the spec: the error taxonomy of its section 7. No source file declares
  it. \<open>VersionConflict\<close> carries the current authoritative state and its version.
\<close>

datatype 's engine_error =
    PairingImpossible
  | InvalidSeeding
  | MatchNotFound
  | AlreadyComplete
  | ResultImmutable
  | PhaseGateViolation
  | VersionConflict 's nat
  | QueueEmpty

text \<open>
  Modelled from the spec: the persistence contract of section 6, which no source file
  implements. Every entity is stored with its optimistic version,
  \<open>load(id) -> (state, version)\<close>.
\<close>

type_synonym 's entity_store = "nat \<rightharpoonup> 's \<times> nat"

text \<open>
  Modelled from the spec: \<open>ConflictArbiter.applyMutation(entityId, expectedVersion,
  mutationFn) -> Result<NewState, Conflict>\<close> of section 4.5, which no source file
  implements. The caller supplies the version it last observed; if the stored version
  differs, the call fails with \<open>VersionConflict\<close> carrying the current state. The
  wrapped operation is all-or-nothing: when it fails nothing is stored, and when it
  succeeds the new state is stored with the next version (section 3: the version
  strictly increases on each successful mutation). The call returns its result and the
  store after it.
\<close>

definition applyMutation ::
  "'s entity_store \<Rightarrow> nat \<Rightarrow> nat \<Rightarrow> ('s \<Rightarrow> 's engine_error + 's) \<Rightarrow>
   ('s engine_error + 's) \<times> 's entity_store" where
  "applyMutation store entityId expectedVersion mutationFn =
     (case store entityId of
        None \<Rightarrow> (Inl MatchNotFound, store)
      | Some (s, v) \<Rightarrow>
          if v \<noteq> expectedVersion then (Inl (VersionConflict s v), store)
          else
            (case mutationFn s of
               Inl e \<Rightarrow> (Inl e, store)
             | Inr s' \<Rightarrow> (Inr s', store(entityId \<mapsto> (s', v + 1)))))"

text \<open>Modelled from the spec: the Match of section 3, its slots and its status.\<close>

datatype slot = Team nat | Bye | Unresolved

datatype match_status = pending | scheduled | in_progress | delayed | completed | forfeited

record match =
  match_id :: nat
  class_id :: nat
  position :: nat
  slot_a :: slot
  slot_b :: slot
  m_status :: match_status
  winner :: "nat option"
  scores :: "(nat \<times> nat) option"
  scheduled_time :: "nat option"

text \<open>
  Modelled from the spec: \<open>BracketEngine.applyResult(matchId, winnerId, scores) ->
  AdvancementEffect\<close> of section 4.2, on the match the id names; no source file
  implements it. Re-applying the winner and scores of a completed match is a no-op;
  another winner or other scores after completion fail with \<open>ResultImmutable\<close>. A
  first result completes the match and emits the matches that become playable: they
  depend on the bracket's topology, so \<open>advance\<close> is a parameter.
\<close>

definition applyResult ::
  "(match \<Rightarrow> nat list) \<Rightarrow> match \<Rightarrow> nat \<Rightarrow> nat \<times> nat \<Rightarrow>
   match engine_error + match \<times> nat list" where
  "applyResult advance m winnerId sc =
     (if m_status m = completed then
        (if winner m = Some winnerId \<and> scores m = Some sc then Inr (m, [])
         else Inl ResultImmutable)
      else
        (let m' = m\<lparr>m_status := completed, winner := Some winnerId, scores := Some sc\<rparr>
         in Inr (m', advance m')))"

text \<open>
  Modelled from the spec: \<open>applyResult\<close> as the operation \<open>applyMutation\<close> wraps
  (section 4.5: every bracket result goes through that contract); it yields the match
  \<open>applyResult\<close> leaves.
\<close>

definition applyResult_mutation ::
  "(match \<Rightarrow> nat list) \<Rightarrow> nat \<Rightarrow> nat \<times> nat \<Rightarrow> match \<Rightarrow> match engine_error + match" where
  "applyResult_mutation advance winnerId sc m = map_sum id fst (applyResult advance m winnerId sc)"

text \<open>
  Modelled from the spec: the explicit override path of section 4.2, the only way to
  change the result of a completed match; it is logged as a correction (the match, the
  result it replaces, the new result).
\<close>

type_synonym correction = "nat \<times> (nat option \<times> (nat \<times> nat) option) \<times> (nat \<times> (nat \<times> nat))"

definition overrideResult ::
  "match \<Rightarrow> nat \<Rightarrow> nat \<times> nat \<Rightarrow> correction list \<Rightarrow> match \<times> correction list" where
  "overrideResult m winnerId sc corrections =
     (m\<lparr>winner := Some winnerId, scores := Some sc\<rparr>,
      corrections @ [(match_id m, (winner m, scores m), (winnerId, sc))])"

text \<open>A completed match, and the store that holds it at version 3.\<close>

definition sample_match :: match where
  "sample_match =
     \<lparr>match_id = 5, class_id = 1, position = 2, slot_a = Team 11, slot_b = Team 12,
      m_status = completed, winner = Some 11, scores = Some (3, 1), scheduled_time = None\<rparr>"

definition sample_store :: "match entity_store" where
  "sample_store = [5 \<mapsto> (sample_match, 3)]"

section \<open>What the schemas accept\<close>

lemma both_Inr: "both x y = Inr p \<longleftrightarrow> (\<exists>a b. x = Inr a \<and> y = Inr b \<and> p = (a, b))"
  by (cases x; cases y) auto

lemma map_sum_Inr: "map_sum f g x = Inr y \<longleftrightarrow> (\<exists>a. x = Inr a \<and> y = g a)"
  by (cases x) auto

lemma not_Inr_is_Inl: "(\<forall>d. x \<noteq> Inr d) \<longleftrightarrow> (\<exists>e. x = Inl e)"
  by (cases x) auto

lemma z_string_min1_Inr: "z_string_min1 p m v = Inr s \<longleftrightarrow> v = Str s \<and> s \<noteq> []"
  by (cases v) (auto simp: Suc_le_eq)

lemma z_number_min_max_Inr:
  "z_number_min_max p lo hi v = Inr x \<longleftrightarrow> v = Num x \<and> lo \<le> x \<and> x \<le> hi"
  by (cases v) auto

lemma z_enum_Inr: "z_enum p opts v = Inr s \<longleftrightarrow> v = Str s \<and> s \<in> set opts"
  by (cases v) auto

lemma z_string_optional_Inr:
  "z_string_optional p v = Inr l \<longleftrightarrow>
     (v = Undefined \<and> l = None) \<or> (\<exists>s. v = Str s \<and> l = Some s)"
  by (cases v) auto

lemmas parse_Inr = both_Inr map_sum_Inr z_string_min1_Inr z_number_min_max_Inr z_enum_Inr
  z_string_optional_Inr

lemma teamSchema_Inr:
  "teamSchema raw = Inr d \<longleftrightarrow>
     (\<exists>n t e. raw ''name'' = Str n \<and> n \<noteq> [] \<and> raw ''tournament_id'' = Str t \<and> t \<noteq> [] \<and>
        raw ''experience_level'' = Str e \<and> e \<in> set experience_levels \<and>
        d = \<lparr>team_name = n, tournament_id = t, experience_level = e\<rparr>)"
  unfolding teamSchema_def by (auto simp: parse_Inr)

lemma tournament_fields_Inr:
  "tournament_fields statuses raw = Inr t \<longleftrightarrow>
     (\<exists>n d sd ed sw mt s.
        raw ''name'' = Str n \<and> n \<noteq> [] \<and> raw ''description'' = Str d \<and> d \<noteq> [] \<and>
        raw ''start_date'' = Str sd \<and> sd \<noteq> [] \<and> raw ''end_date'' = Str ed \<and> ed \<noteq> [] \<and>
        raw ''swiss_rounds_count'' = Num sw \<and> 1 \<le> sw \<and> sw \<le> 10 \<and>
        raw ''max_teams'' = Num mt \<and> 1 \<le> mt \<and> mt \<le> 100 \<and>
        raw ''status'' = Str s \<and> s \<in> set statuses \<and>
        t = (n, d, sd, ed, sw, mt, s))"
  unfolding tournament_fields_def by (auto simp: parse_Inr)

lemma tournamentSchema_Inr:
  "tournamentSchema raw = Inr x \<longleftrightarrow>
     (\<exists>n d sd ed sw mt s.
        raw ''name'' = Str n \<and> n \<noteq> [] \<and> raw ''description'' = Str d \<and> d \<noteq> [] \<and>
        raw ''start_date'' = Str sd \<and> sd \<noteq> [] \<and> raw ''end_date'' = Str ed \<and> ed \<noteq> [] \<and>
        raw ''swiss_rounds_count'' = Num sw \<and> 1 \<le> sw \<and> sw \<le> 10 \<and>
        raw ''max_teams'' = Num mt \<and> 1 \<le> mt \<and> mt \<le> 100 \<and>
        raw ''status'' = Str s \<and> s \<in> set page_statuses \<and>
        x = \<lparr>name = n, description = d, start_date = sd, end_date = ed,
           swiss_rounds_count = sw, max_teams = mt, status = s\<rparr>)"
  unfolding tournamentSchema_def by (auto simp: map_sum_Inr tournament_fields_Inr)

lemma TournamentForm_tournamentSchema_Inr:
  "TournamentForm_tournamentSchema raw = Inr x \<longleftrightarrow>
     (\<exists>n d sd ed sw mt s l.
        raw ''name'' = Str n \<and> n \<noteq> [] \<and> raw ''description'' = Str d \<and> d \<noteq> [] \<and>
        raw ''start_date'' = Str sd \<and> sd \<noteq> [] \<and> raw ''end_date'' = Str ed \<and> ed \<noteq> [] \<and>
        raw ''swiss_rounds_count'' = Num sw \<and> 1 \<le> sw \<and> sw \<le> 10 \<and>
        raw ''max_teams'' = Num mt \<and> 1 \<le> mt \<and> mt \<le> 100 \<and>
        raw ''status'' = Str s \<and> s \<in> set form_statuses \<and>
        (raw ''location'' = Undefined \<and> l = None \<or>
         raw ''location'' = Str (the l) \<and> l \<noteq> None) \<and>
        x = \<lparr>name = n, description = d, start_date = sd, end_date = ed,
           swiss_rounds_count = sw, max_teams = mt, status = s, location = l\<rparr>)"
  unfolding TournamentForm_tournamentSchema_def
  by (auto simp: map_sum_Inr both_Inr z_string_optional_Inr tournament_fields_Inr)

section \<open>What a submit sends\<close>

lemma api_calls_team_submit:
  "api_calls (CreateTeamPage_submit createTeam raw st) =
     (case teamSchema raw of Inl errs \<Rightarrow> api_calls st | Inr d \<Rightarrow> api_calls st @ [d])"
  by (simp add: CreateTeamPage_submit_def handleSubmit_def CreateTeamPage_onSubmit_def Let_def
      split: sum.splits api_outcome.splits)

lemma api_calls_onSubmit:
  "api_calls (CreateTournamentPage_onSubmit parseDate createTournament data st) =
     (if date_le (parseDate (end_date data)) (parseDate (start_date data))
      then api_calls st else api_calls st @ [data])"
  by (simp add: CreateTournamentPage_onSubmit_def Let_def split: api_outcome.splits)

lemma error_onSubmit:
  "date_le (parseDate (end_date data)) (parseDate (start_date data)) \<Longrightarrow>
   error (CreateTournamentPage_onSubmit parseDate createTournament data st) =
     Some ''End date must be after start date''"
  by (simp add: CreateTournamentPage_onSubmit_def Let_def)

lemma CreateTournamentPage_submit_Inr:
  "tournamentSchema raw = Inr data \<Longrightarrow>
   CreateTournamentPage_submit parseDate createTournament raw st =
     CreateTournamentPage_onSubmit parseDate createTournament data (st\<lparr>form_errors := []\<rparr>)"
  by (simp add: CreateTournamentPage_submit_def handleSubmit_def)

lemma CreateTournamentPage_submit_Inl:
  "tournamentSchema raw = Inl errs \<Longrightarrow>
   CreateTournamentPage_submit parseDate createTournament raw st = st\<lparr>form_errors := errs\<rparr>"
  by (simp add: CreateTournamentPage_submit_def handleSubmit_def)

lemma api_calls_TournamentForm_submit:
  "api_calls (TournamentForm_submit raw st) =
     (case TournamentForm_tournamentSchema raw of
        Inl errs \<Rightarrow> api_calls st | Inr d \<Rightarrow> api_calls st @ [d])"
  by (simp add: TournamentForm_submit_def handleSubmit_def TournamentForm_handleFormSubmit_def
      split: sum.splits)

text \<open>
  A form that does not pass the schema never reaches \<open>onSubmit\<close>, so whatever the
  other fields are, no request is sent when the end date is not after the start date.
\<close>

lemma submit_never_calls_api_when_not_after:
  assumes "raw ''end_date'' = Str ed" "raw ''start_date'' = Str sd"
    "parseDate ed = Some e" "parseDate sd = Some s" "e \<le> s"
  shows "api_calls (CreateTournamentPage_submit parseDate createTournament raw st) = api_calls st"
proof (cases "tournamentSchema raw")
  case (Inl errs)
  then show ?thesis by (simp add: CreateTournamentPage_submit_Inl)
next
  case (Inr d)
  with assms have "end_date d = ed" "start_date d = sd"
    by (auto simp: tournamentSchema_Inr)
  with assms Inr show ?thesis
    by (simp add: CreateTournamentPage_submit_Inr api_calls_onSubmit)
qed

text \<open>
  The schema only asks the two dates to be non-empty strings. When one of them is not a
  date, \<open>new Date\<close> gives \<open>NaN\<close>, the comparison is false and the request is sent.
\<close>

lemma unparseable_date_is_not_refused:
  "parseDate (end_date data) = None \<or> parseDate (start_date data) = None \<Longrightarrow>
   api_calls (CreateTournamentPage_onSubmit parseDate createTournament data st) =
     api_calls st @ [data]"
  by (cases "parseDate (end_date data)"; cases "parseDate (start_date data)")
     (auto simp: api_calls_onSubmit)

text \<open>The colour of each tier the registration accepts is never the fallback's.\<close>

lemma getExperienceColor_levels:
  "e \<in> set experience_levels \<Longrightarrow> getExperienceColor e \<noteq> ''bg-gray-100 text-gray-800''"
  by (auto simp: experience_levels_def getExperienceColor_def toLowerCase_def lower_char_def)

section \<open>The claims about the engine\<close>

text \<open>
  Claim C1. A call of \<open>applyMutation\<close> whose expected version differs from the stored
  version of the entity fails with \<open>VersionConflict\<close> carrying the stored state (and
  its version), and leaves the store as it was. No failure of the call, a conflict or a
  failure of the wrapped mutation, changes the store.
\<close>

theorem applyMutation_stale_version:
  "(store entityId = Some (s, v) \<and> v \<noteq> expectedVersion \<longrightarrow>
      applyMutation store entityId expectedVersion mutationFn =
        (Inl (VersionConflict s v), store)) \<and>
   (fst (applyMutation store entityId expectedVersion mutationFn) = Inl e \<longrightarrow>
      snd (applyMutation store entityId expectedVersion mutationFn) = store)"
  by (auto simp: applyMutation_def split: option.splits sum.splits)

theorem applyMutation_stale_version_witness:
  "sample_store 5 = Some (sample_match, 3) \<and> (3::nat) \<noteq> 2 \<and>
   applyMutation sample_store 5 2 (applyResult_mutation (\<lambda>m. []) 12 (0, 3)) =
     (Inl (VersionConflict sample_match 3), sample_store)"
  using applyMutation_stale_version [of sample_store 5 sample_match 3 2
      "applyResult_mutation (\<lambda>m. []) 12 (0, 3)"]
  by (simp add: sample_store_def)

text \<open>
  Claim C2. For a match completed with winner \<open>w\<close> and scores \<open>sc\<close>, \<open>applyResult\<close>
  with the same winner and scores returns the match unchanged and advances nothing;
  with another winner or other scores it fails with \<open>ResultImmutable\<close>; wrapped in
  \<open>applyMutation\<close> with the stored version, the replay returns the match and the store
  still holds it. Only the override path changes the result, and it logs a correction.
  And the result of a first application, applied again, is a no-op.
\<close>

theorem applyResult_idempotent:
  "(m_status m = completed \<and> winner m = Some w \<and> scores m = Some sc \<longrightarrow>
      applyResult advance m w sc = Inr (m, []) \<and>
      (w' \<noteq> w \<or> sc' \<noteq> sc \<longrightarrow> applyResult advance m w' sc' = Inl ResultImmutable) \<and>
      (store mid = Some (m, v) \<longrightarrow>
         fst (applyMutation store mid v (applyResult_mutation advance w sc)) = Inr m \<and>
         map_option fst (snd (applyMutation store mid v (applyResult_mutation advance w sc)) mid) =
           Some m) \<and>
      overrideResult m w' sc' corrections =
        (m\<lparr>winner := Some w', scores := Some sc'\<rparr>,
         corrections @ [(match_id m, (Some w, Some sc), (w', sc'))])) \<and>
   (applyResult advance m w sc = Inr (m1, played) \<longrightarrow>
      applyResult advance m1 w sc = Inr (m1, []))"
  by (auto simp: applyResult_def applyMutation_def applyResult_mutation_def overrideResult_def
      Let_def split: if_splits)

theorem applyResult_idempotent_witness:
  "m_status sample_match = completed \<and> winner sample_match = Some 11 \<and>
   scores sample_match = Some (3, 1) \<and>
   applyResult (\<lambda>m. [7]) sample_match 11 (3, 1) = Inr (sample_match, []) \<and>
   applyResult (\<lambda>m. [7]) sample_match 12 (3, 1) = Inl ResultImmutable \<and>
   applyResult (\<lambda>m. [7]) sample_match 11 (3, 2) = Inl ResultImmutable \<and>
   fst (applyMutation sample_store 5 3 (applyResult_mutation (\<lambda>m. [7]) 11 (3, 1))) =
     Inr sample_match"
  using
    applyResult_idempotent [where m = sample_match and w = 11 and sc = "(3, 1)" and w' = 12
      and sc' = "(3, 1)" and advance = "\<lambda>m. [7]" and store = sample_store and mid = 5
      and v = 3]
    applyResult_idempotent [where m = sample_match and w = 11 and sc = "(3, 1)" and w' = 11
      and sc' = "(3, 2)" and advance = "\<lambda>m. [7]" and store = sample_store and mid = 5
      and v = 3]
  by (simp add: sample_match_def sample_store_def)

section \<open>The claims about the pages\<close>

text \<open>
  Claim C8, as amended. The specification gives a Tournament the phases
  \<open>setup | swiss | elimination | complete\<close>; the code has another enumeration. A
  tournament that passes the schema of the creation page or that of the TournamentForm
  component (creation and update) has its status among \<open>setup\<close>, \<open>upcoming\<close>,
  \<open>active\<close>, \<open>completed\<close>, \<open>cancelled\<close>, and the status is the string the form
  held. So is every tournament the creation page sends to the API and every one the
  component hands to its \<open>onSubmit\<close> prop. On both paths an accepted form stays
  accepted when its status is changed to \<open>upcoming\<close>, \<open>active\<close>, \<open>completed\<close> or
  \<open>cancelled\<close>, and in the component also to \<open>setup\<close>. A form whose status is
  \<open>swiss\<close>, \<open>elimination\<close> or \<open>complete\<close> is refused on both paths.
\<close>

theorem tournament_status_accepted:
  "(tournamentSchema raw = Inr d \<longrightarrow>
      status d \<in> {''setup'', ''upcoming'', ''active'', ''completed'', ''cancelled''} \<and>
      raw ''status'' = Str (status d)) \<and>
   (TournamentForm_tournamentSchema raw = Inr f \<longrightarrow>
      status f \<in> {''setup'', ''upcoming'', ''active'', ''completed'', ''cancelled''} \<and>
      raw ''status'' = Str (status f)) \<and>
   (\<forall>t \<in> set (api_calls (CreateTournamentPage_submit parseDate createTournament raw st)).
      t \<in> set (api_calls st) \<or>
      status t \<in> {''setup'', ''upcoming'', ''active'', ''completed'', ''cancelled''}) \<and>
   (\<forall>t \<in> set (api_calls (TournamentForm_submit raw st')).
      t \<in> set (api_calls st') \<or>
      status t \<in> {''setup'', ''upcoming'', ''active'', ''completed'', ''cancelled''}) \<and>
   (tournamentSchema raw = Inr d \<and>
    s \<in> {''upcoming'', ''active'', ''completed'', ''cancelled''} \<longrightarrow>
      tournamentSchema (raw(''status'' := Str s)) = Inr (d\<lparr>status := s\<rparr>)) \<and>
   (TournamentForm_tournamentSchema raw = Inr f \<and>
    s \<in> {''setup'', ''upcoming'', ''active'', ''completed'', ''cancelled''} \<longrightarrow>
      TournamentForm_tournamentSchema (raw(''status'' := Str s)) = Inr (f\<lparr>status := s\<rparr>)) \<and>
   (raw ''status'' = Str p \<and> p \<in> {''swiss'', ''elimination'', ''complete''} \<longrightarrow>
      (\<exists>errs. tournamentSchema raw = Inl errs) \<and>
      (\<exists>errs. TournamentForm_tournamentSchema raw = Inl errs))"
proof (intro conjI impI ballI)
  assume "tournamentSchema raw = Inr d"
  then show "status d \<in> {''setup'', ''upcoming'', ''active'', ''completed'', ''cancelled''}"
    and "raw ''status'' = Str (status d)"
    by (auto simp: tournamentSchema_Inr page_statuses_def)
next
  assume "TournamentForm_tournamentSchema raw = Inr f"
  then show "status f \<in> {''setup'', ''upcoming'', ''active'', ''completed'', ''cancelled''}"
    and "raw ''status'' = Str (status f)"
    by (auto simp: TournamentForm_tournamentSchema_Inr form_statuses_def)
next
  fix t
  assume t: "t \<in> set (api_calls (CreateTournamentPage_submit parseDate createTournament raw st))"
  show "t \<in> set (api_calls st) \<or>
      status t \<in> {''setup'', ''upcoming'', ''active'', ''completed'', ''cancelled''}"
  proof (cases "tournamentSchema raw")
    case (Inl errs)
    with t show ?thesis by (simp add: CreateTournamentPage_submit_Inl)
  next
    case (Inr x)
    then have "status x \<in> {''setup'', ''upcoming'', ''active'', ''completed'', ''cancelled''}"
      by (auto simp: tournamentSchema_Inr page_statuses_def)
    with t Inr show ?thesis
      by (auto simp: CreateTournamentPage_submit_Inr api_calls_onSubmit split: if_splits)
  qed
next
  fix t assume t: "t \<in> set (api_calls (TournamentForm_submit raw st'))"
  show "t \<in> set (api_calls st') \<or>
      status t \<in> {''setup'', ''upcoming'', ''active'', ''completed'', ''cancelled''}"
  proof (cases "TournamentForm_tournamentSchema raw")
    case (Inl errs)
    with t show ?thesis by (simp add: api_calls_TournamentForm_submit)
  next
    case (Inr x)
    then have "status x \<in> {''setup'', ''upcoming'', ''active'', ''completed'', ''cancelled''}"
      by (auto simp: TournamentForm_tournamentSchema_Inr form_statuses_def)
    with t Inr show ?thesis
      by (auto simp: api_calls_TournamentForm_submit)
  qed
next
  assume "tournamentSchema raw = Inr d \<and>
    s \<in> {''upcoming'', ''active'', ''completed'', ''cancelled''}"
  then have "tournamentSchema raw = Inr d" and "s \<in> set page_statuses"
    by (simp_all add: page_statuses_def)
  then show "tournamentSchema (raw(''status'' := Str s)) = Inr (d\<lparr>status := s\<rparr>)"
    unfolding tournamentSchema_Inr by auto
next
  assume "TournamentForm_tournamentSchema raw = Inr f \<and>
    s \<in> {''setup'', ''upcoming'', ''active'', ''completed'', ''cancelled''}"
  then have "TournamentForm_tournamentSchema raw = Inr f" and "s \<in> set form_statuses"
    by (simp_all add: form_statuses_def)
  then show "TournamentForm_tournamentSchema (raw(''status'' := Str s)) = Inr (f\<lparr>status := s\<rparr>)"
    unfolding TournamentForm_tournamentSchema_Inr by auto
next
  assume p: "raw ''status'' = Str p \<and> p \<in> {''swiss'', ''elimination'', ''complete''}"
  then have "\<forall>x. tournamentSchema raw \<noteq> Inr x"
    by (auto simp: tournamentSchema_Inr page_statuses_def)
  then show "\<exists>errs. tournamentSchema raw = Inl errs"
    by (simp add: not_Inr_is_Inl)
  from p have "\<forall>x. TournamentForm_tournamentSchema raw \<noteq> Inr x"
    by (auto simp: TournamentForm_tournamentSchema_Inr form_statuses_def)
  then show "\<exists>errs. TournamentForm_tournamentSchema raw = Inl errs"
    by (simp add: not_Inr_is_Inl)
qed

theorem tournament_status_accepted_witness:
  "tournamentSchema sample_tournament_form = Inr sample_tournament \<and>
   status sample_tournament = ''active'' \<and>
   tournamentSchema sample_update_form = Inr sample_cancelled \<and>
   TournamentForm_tournamentSchema sample_update_form = Inr sample_update \<and>
   TournamentForm_tournamentSchema (sample_update_form(''status'' := Str ''setup'')) =
     Inr (sample_update\<lparr>status := ''setup''\<rparr>) \<and>
   api_calls (CreateTournamentPage_submit sample_parseDate (\<lambda>d. Resolved)
      sample_tournament_form initial_state) = [sample_tournament] \<and>
   api_calls (TournamentForm_submit sample_update_form initial_state) = [sample_update] \<and>
   (\<exists>errs. tournamentSchema (sample_tournament_form(''status'' := Str ''swiss'')) = Inl errs) \<and>
   (\<exists>errs. TournamentForm_tournamentSchema (sample_tournament_form(''status'' := Str ''swiss'')) =
      Inl errs)"
  using
    tournament_status_accepted [where raw = sample_tournament_form and d = sample_tournament
      and s = "''cancelled''" and f = sample_update and p = "''swiss''"
      and parseDate = sample_parseDate and createTournament = "\<lambda>d. Resolved"
      and st = initial_state and st' = initial_state]
    tournament_status_accepted [where raw = sample_update_form and d = sample_cancelled
      and s = "''setup''" and f = sample_update and p = "''swiss''"
      and parseDate = sample_parseDate and createTournament = "\<lambda>d. Resolved"
      and st = initial_state and st' = initial_state]
    tournament_status_accepted [where raw = "sample_tournament_form(''status'' := Str ''swiss'')"
      and d = sample_tournament and s = "''setup''" and f = sample_update and p = "''swiss''"
      and parseDate = sample_parseDate and createTournament = "\<lambda>d. Resolved"
      and st = initial_state and st' = initial_state]
  by (simp add: tournamentSchema_def TournamentForm_tournamentSchema_def tournament_fields_def
      page_statuses_def form_statuses_def sample_update_form_def sample_update_def
      sample_cancelled_def
      sample_tournament_form_def sample_tournament_def sample_parseDate_def initial_state_def
      CreateTournamentPage_submit_def handleSubmit_def CreateTournamentPage_onSubmit_def
      TournamentForm_submit_def TournamentForm_handleFormSubmit_def)

text \<open>
  Claim C8 as the specification states it fails: a form whose status the user set to
  \<open>cancelled\<close> passes on both paths, the creation page sends it to the API and the
  component hands it to its \<open>onSubmit\<close> prop, and \<open>cancelled\<close> is none of the four phases.
\<close>

theorem tournament_status_counterexample:
  "api_calls (CreateTournamentPage_submit sample_parseDate (\<lambda>d. Resolved)
      sample_update_form initial_state) = [sample_cancelled] \<and>
   status sample_cancelled = ''cancelled'' \<and>
   api_calls (TournamentForm_submit sample_update_form initial_state) = [sample_update] \<and>
   status sample_update = ''cancelled'' \<and>
   ''cancelled'' \<notin> set spec_phases"
  by (simp add: tournamentSchema_def TournamentForm_tournamentSchema_def tournament_fields_def
      page_statuses_def form_statuses_def sample_update_form_def sample_update_def
      sample_cancelled_def
      sample_tournament_form_def sample_tournament_def sample_parseDate_def initial_state_def
      CreateTournamentPage_submit_def handleSubmit_def CreateTournamentPage_onSubmit_def
      TournamentForm_submit_def TournamentForm_handleFormSubmit_def spec_phases_def)

text \<open>
  Claim C9. A team that passes the registration's schema has its experience level among
  \<open>novice\<close>, \<open>intermediate\<close>, \<open>advanced\<close>, and it is the string the form held; every
  team the registration sends to the API has such a level; and a form whose experience
  level is any other string is refused, with no request sent.
\<close>

theorem team_experience_tier:
  "(teamSchema raw = Inr d \<longrightarrow>
      experience_level d \<in> {''novice'', ''intermediate'', ''advanced''} \<and>
      raw ''experience_level'' = Str (experience_level d)) \<and>
   (\<forall>t \<in> set (api_calls (CreateTeamPage_submit createTeam raw st)).
      t \<in> set (api_calls st) \<or>
      experience_level t \<in> {''novice'', ''intermediate'', ''advanced''}) \<and>
   (raw ''experience_level'' = Str e \<and> e \<notin> {''novice'', ''intermediate'', ''advanced''} \<longrightarrow>
      (\<exists>errs. teamSchema raw = Inl errs) \<and>
      api_calls (CreateTeamPage_submit createTeam raw st) = api_calls st)"
proof (intro conjI impI ballI)
  assume "teamSchema raw = Inr d"
  then show "experience_level d \<in> {''novice'', ''intermediate'', ''advanced''}"
    and "raw ''experience_level'' = Str (experience_level d)"
    by (auto simp: teamSchema_Inr experience_levels_def)
next
  fix t assume "t \<in> set (api_calls (CreateTeamPage_submit createTeam raw st))"
  then show "t \<in> set (api_calls st) \<or>
      experience_level t \<in> {''novice'', ''intermediate'', ''advanced''}"
    by (auto simp: api_calls_team_submit teamSchema_Inr experience_levels_def split: sum.splits)
next
  assume "raw ''experience_level'' = Str e \<and> e \<notin> {''novice'', ''intermediate'', ''advanced''}"
  then have "\<forall>d. teamSchema raw \<noteq> Inr d"
    by (auto simp: teamSchema_Inr experience_levels_def)
  then obtain errs where "teamSchema raw = Inl errs"
    by (auto simp: not_Inr_is_Inl)
  then show "\<exists>errs. teamSchema raw = Inl errs"
    and "api_calls (CreateTeamPage_submit createTeam raw st) = api_calls st"
    by (auto simp: api_calls_team_submit)
qed

theorem team_experience_tier_witness:
  "teamSchema sample_team_form = Inr sample_team \<and>
   experience_level sample_team \<in> {''novice'', ''intermediate'', ''advanced''} \<and>
   api_calls (CreateTeamPage_submit (\<lambda>d. Resolved) sample_team_form initial_state) =
     [sample_team] \<and>
   (\<exists>errs. teamSchema (sample_team_form(''experience_level'' := Str ''expert'')) = Inl errs)"
  using
    team_experience_tier [of sample_team_form sample_team "\<lambda>d. Resolved" initial_state
      "''expert''"]
    team_experience_tier [of "sample_team_form(''experience_level'' := Str ''expert'')"
      sample_team "\<lambda>d. Resolved" initial_state "''expert''"]
  by (simp add: api_calls_team_submit teamSchema_def sample_team_form_def sample_team_def
      experience_levels_def initial_state_def)

text \<open>
  What \<open>onSubmit\<close> of the creation page does with the dates, for any data: when the
  end date, parsed as a date, is equal to or before the start date, the error is
  \<open>End date must be after start date\<close> and no request is sent; when it is strictly
  after, the request is sent with exactly the data. The same holds of the whole submit
  for a form that passes the schema, with the data the schema parsed from it.
\<close>

lemma create_tournament_date_check:
  "(parseDate (end_date data) = Some e \<and> parseDate (start_date data) = Some s \<and> e \<le> s \<longrightarrow>
      error (CreateTournamentPage_onSubmit parseDate createTournament data st) =
        Some ''End date must be after start date'' \<and>
      api_calls (CreateTournamentPage_onSubmit parseDate createTournament data st) =
        api_calls st) \<and>
   (parseDate (end_date data) = Some e \<and> parseDate (start_date data) = Some s \<and> s < e \<longrightarrow>
      api_calls (CreateTournamentPage_onSubmit parseDate createTournament data st) =
        api_calls st @ [data]) \<and>
   (tournamentSchema raw = Inr data \<and>
    parseDate (end_date data) = Some e \<and> parseDate (start_date data) = Some s \<and> e \<le> s \<longrightarrow>
      error (CreateTournamentPage_submit parseDate createTournament raw st) =
        Some ''End date must be after start date'' \<and>
      api_calls (CreateTournamentPage_submit parseDate createTournament raw st) =
        api_calls st) \<and>
   (tournamentSchema raw = Inr data \<and>
    parseDate (end_date data) = Some e \<and> parseDate (start_date data) = Some s \<and> s < e \<longrightarrow>
      api_calls (CreateTournamentPage_submit parseDate createTournament raw st) =
        api_calls st @ [data])"
  by (simp add: api_calls_onSubmit error_onSubmit CreateTournamentPage_submit_Inr)

lemma create_tournament_date_check_samples:
  "tournamentSchema sample_tournament_form = Inr sample_tournament \<and>
   sample_parseDate (end_date sample_tournament) = Some 1704153600000 \<and>
   sample_parseDate (start_date sample_tournament) = Some 1704067200000 \<and>
   (1704067200000 :: int) < 1704153600000 \<and>
   api_calls (CreateTournamentPage_submit sample_parseDate (\<lambda>d. Resolved)
      sample_tournament_form initial_state) = [sample_tournament] \<and>
   sample_parseDate (end_date sample_bad_range) = Some 1704067200000 \<and>
   sample_parseDate (start_date sample_bad_range) = Some 1704153600000 \<and>
   error (CreateTournamentPage_onSubmit sample_parseDate (\<lambda>d. Resolved)
      sample_bad_range initial_state) = Some ''End date must be after start date'' \<and>
   api_calls (CreateTournamentPage_onSubmit sample_parseDate (\<lambda>d. Resolved)
      sample_bad_range initial_state) = []"
  using
    create_tournament_date_check [of sample_parseDate sample_tournament 1704153600000
      1704067200000 "\<lambda>d. Resolved" initial_state sample_tournament_form]
    create_tournament_date_check [of sample_parseDate sample_bad_range 1704067200000
      1704153600000 "\<lambda>d. Resolved" initial_state sample_tournament_form]
  by (simp add: tournamentSchema_def tournament_fields_def page_statuses_def
      sample_tournament_form_def sample_tournament_def sample_bad_range_def
      sample_parseDate_def initial_state_def)


end
